theory Spec2Isabelle
  imports Complex_Main "HOL-Library.AList"
begin

section \<open>JavaScript numbers\<close>

text \<open>
  The sync server (\<^verbatim>\<open>server/index.js\<close>) and the browser hooks compute with JavaScript
  numbers. Timestamps returned by \<^verbatim>\<open>Date.now()\<close> are whole milliseconds and are
  modelled as \<open>int\<close>; every other number is modelled as an exact \<open>real\<close>, so rounding,
  \<^verbatim>\<open>NaN\<close> and infinities of the IEEE doubles are outside the model.

  The operator \<^verbatim>\<open>%\<close> of JavaScript truncates the quotient towards zero, so its result
  has the sign of the dividend. For a zero divisor JavaScript yields \<^verbatim>\<open>NaN\<close>; every
  use below has a positive divisor, by a guard of the source or by a stated hypothesis.
\<close>

definition trunc :: "real \<Rightarrow> int" where
  "trunc q = (if 0 \<le> q then \<lfloor>q\<rfloor> else \<lceil>q\<rceil>)"

definition jsRem :: "real \<Rightarrow> real \<Rightarrow> real" where
  "jsRem a b = a - b * of_int (trunc (a / b))"

text \<open>
  The mathematical remainder the specification writes as \<open>mod\<close>: the unique value in
  \<open>[0, d)\<close> that differs from \<open>a\<close> by a whole multiple of \<open>d\<close>.
\<close>

definition floor_mod :: "real \<Rightarrow> real \<Rightarrow> real" where
  "floor_mod a d = a - d * of_int \<lfloor>a / d\<rfloor>"

section \<open>The server: \<^verbatim>\<open>server/index.js\<close>\<close>

subsection \<open>Song sync configuration and the master clock\<close>

text \<open>
  The two module constants \<^verbatim>\<open>SONG_DURATION\<close> (seconds) and \<^verbatim>\<open>serverStartTime\<close>
  (milliseconds) are fixed when the process starts. The source sets
  \<^verbatim>\<open>SONG_DURATION = 21.0\<close> and \<^verbatim>\<open>serverStartTime = Date.now()\<close>.
  Each function that calls \<^verbatim>\<open>Date.now()\<close> takes the value read as its argument \<open>now\<close>.
\<close>

record config =
  SONG_DURATION :: real
  serverStartTime :: int

definition server_config :: "int \<Rightarrow> config" where
  "server_config startedAt = \<lparr>SONG_DURATION = 21, serverStartTime = startedAt\<rparr>"

definition getElapsedTime :: "config \<Rightarrow> int \<Rightarrow> real" where
  "getElapsedTime cfg now = of_int (now - serverStartTime cfg) / 1000"

definition getCurrentSongTime :: "config \<Rightarrow> int \<Rightarrow> real" where
  "getCurrentSongTime cfg now = jsRem (getElapsedTime cfg now) (SONG_DURATION cfg)"

definition getLoopCount :: "config \<Rightarrow> int \<Rightarrow> int" where
  "getLoopCount cfg now = \<lfloor>getElapsedTime cfg now / SONG_DURATION cfg\<rfloor>"

subsection \<open>User management\<close>

text \<open>
  A user entry is the object \<^verbatim>\<open>{ id, color, x, y }\<close>. The registry \<^verbatim>\<open>users\<close> is a
  JavaScript \<^verbatim>\<open>Map\<close>, which keeps its keys in insertion order: it is an association list
  with \<^verbatim>\<open>Map.set\<close> as \<open>AList.update\<close> (replace the value in place when the key is
  there, append otherwise), \<^verbatim>\<open>Map.get\<close> as \<open>map_of\<close>, \<^verbatim>\<open>Map.delete\<close> as
  \<open>AList.delete\<close> and \<^verbatim>\<open>size\<close> as \<open>length\<close>. The debounce table
  \<^verbatim>\<open>lastKonamiActivation\<close> is only ever read by key, so it is a partial function.
\<close>

record user =
  u_id :: string
  u_color :: string
  u_x :: real
  u_y :: real

record server =
  users :: "(string \<times> user) list"
  konamiActivations :: nat
  lastKonamiActivation :: "string \<rightharpoonup> int"

definition initial_server :: server where
  "initial_server = \<lparr>users = [], konamiActivations = 0, lastKonamiActivation = Map.empty\<rparr>"

subsection \<open>Messages\<close>

record sync_payload =
  p_serverStartTime :: int
  p_serverNow :: int
  p_songDuration :: real
  p_songTime :: real
  p_loopCount :: int
  p_userId :: string
  p_userColor :: string
  p_users :: "user list"
  p_userCount :: nat

datatype message =
    Sync sync_payload
  | UserJoined "user option" nat
  | CursorUpdate string real real
  | UserLeft string nat
  | KonamiCount nat

text \<open>
  The three ways the handlers send: \<^verbatim>\<open>socket.emit\<close> reaches the socket itself,
  \<^verbatim>\<open>socket.broadcast.emit\<close> every connected socket but that one, \<^verbatim>\<open>io.emit\<close> every
  connected socket. The connected sockets are those with an entry in \<^verbatim>\<open>users\<close>: the
  connection handler adds the entry and the disconnect handler removes it.
\<close>

datatype emit =
    SocketEmit string message
  | SocketBroadcast string message
  | IoEmit message

fun recipients :: "server \<Rightarrow> emit \<Rightarrow> string set" where
  "recipients s (SocketEmit userId m) = {userId}"
| "recipients s (SocketBroadcast userId m) = fst ` set (users s) - {userId}"
| "recipients s (IoEmit m) = fst ` set (users s)"

subsection \<open>Socket handlers\<close>

text \<open>
  \<^verbatim>\<open>io.on('connection', ...)\<close>. The socket id and the colour drawn by
  \<^verbatim>\<open>generateColor()\<close> are arguments; \<open>t1\<close>, \<open>t2\<close> and \<open>t3\<close> are the clock readings
  taken, in this order, for \<^verbatim>\<open>serverNow\<close>, \<^verbatim>\<open>songTime\<close> and \<^verbatim>\<open>loopCount\<close>.
\<close>

definition connection ::
  "config \<Rightarrow> string \<Rightarrow> string \<Rightarrow> int \<Rightarrow> int \<Rightarrow> int \<Rightarrow> server \<Rightarrow> server \<times> emit list" where
  "connection cfg userId userColor t1 t2 t3 s =
     (let s' = s\<lparr>users := AList.update userId
                   \<lparr>u_id = userId, u_color = userColor, u_x = 0.5, u_y = 0.5\<rparr> (users s)\<rparr>
      in (s',
          [SocketEmit userId (Sync
             \<lparr>p_serverStartTime = serverStartTime cfg,
              p_serverNow = t1,
              p_songDuration = SONG_DURATION cfg,
              p_songTime = getCurrentSongTime cfg t2,
              p_loopCount = getLoopCount cfg t3,
              p_userId = userId,
              p_userColor = userColor,
              p_users = map snd (users s'),
              p_userCount = length (users s')\<rparr>),
           SocketBroadcast userId
             (UserJoined (map_of (users s') userId) (length (users s')))]))"

text \<open>\<^verbatim>\<open>socket.on('cursorMove', ...)\<close>: the entry is changed in place, when there is one.\<close>

definition cursorMove :: "string \<Rightarrow> real \<Rightarrow> real \<Rightarrow> server \<Rightarrow> server \<times> emit list" where
  "cursorMove userId dx dy s =
     (case map_of (users s) userId of
        None \<Rightarrow> (s, [])
      | Some u \<Rightarrow>
          (s\<lparr>users := AList.update userId (u\<lparr>u_x := dx, u_y := dy\<rparr>) (users s)\<rparr>,
           [SocketBroadcast userId (CursorUpdate userId dx dy)]))"

text \<open>\<^verbatim>\<open>socket.on('disconnect', ...)\<close>: the only statement that changes state is
  \<^verbatim>\<open>users.delete(userId)\<close>.\<close>

definition disconnect :: "string \<Rightarrow> server \<Rightarrow> server \<times> emit list" where
  "disconnect userId s =
     (let s' = s\<lparr>users := AList.delete userId (users s)\<rparr>
      in (s', [IoEmit (UserLeft userId (length (users s')))]))"

text \<open>
  \<^verbatim>\<open>socket.on('konamiActivated', ...)\<close>. The source reads
  \<^verbatim>\<open>lastKonamiActivation.get(userId) || 0\<close>: a missing entry counts as the timestamp 0
  (and so does a stored 0, the only stored value that is falsy).
\<close>

definition konamiActivated :: "string \<Rightarrow> int \<Rightarrow> server \<Rightarrow> server \<times> emit list" where
  "konamiActivated userId now s =
     (let lastActivation = (case lastKonamiActivation s userId of None \<Rightarrow> 0 | Some t \<Rightarrow> t)
      in if now - lastActivation < 1000 then (s, [])
         else
           (let s' = s\<lparr>lastKonamiActivation := (lastKonamiActivation s)(userId \<mapsto> now),
                       konamiActivations := konamiActivations s + 1\<rparr>
            in (s', [SocketEmit userId (KonamiCount (konamiActivations s'))])))"

subsection \<open>Runs of the server\<close>

text \<open>
  The events that change the server's state, each with the data its handler reads,
  and the server's run over a sequence of them from a given state.
\<close>

datatype event =
    Connection string string int int int
  | CursorMove string real real
  | Disconnect string
  | KonamiActivated string int

fun handle :: "config \<Rightarrow> event \<Rightarrow> server \<Rightarrow> server \<times> emit list" where
  "handle cfg (Connection userId userColor t1 t2 t3) s = connection cfg userId userColor t1 t2 t3 s"
| "handle cfg (CursorMove userId dx dy) s = cursorMove userId dx dy s"
| "handle cfg (Disconnect userId) s = disconnect userId s"
| "handle cfg (KonamiActivated userId now) s = konamiActivated userId now s"

fun run :: "config \<Rightarrow> event list \<Rightarrow> server \<Rightarrow> server" where
  "run cfg [] s = s"
| "run cfg (e # es) s = run cfg es (fst (handle cfg e s))"

text \<open>
  An activation is accepted when the handler answers it with the count. \<open>outcomes\<close>
  lists, in order, whether each activation of viewer \<open>v\<close> in a run was accepted, and
  \<open>activationTimes\<close> is that viewer's own activation history: the times of its
  activations.
\<close>

definition konamiAccepted :: "string \<Rightarrow> int \<Rightarrow> server \<Rightarrow> bool" where
  "konamiAccepted userId now s = (snd (konamiActivated userId now s) \<noteq> [])"

fun outcomes :: "config \<Rightarrow> string \<Rightarrow> event list \<Rightarrow> server \<Rightarrow> bool list" where
  "outcomes cfg v [] s = []"
| "outcomes cfg v (KonamiActivated userId now # es) s =
     (if userId = v then [konamiAccepted userId now s] else [])
       @ outcomes cfg v es (fst (handle cfg (KonamiActivated userId now) s))"
| "outcomes cfg v (e # es) s = outcomes cfg v es (fst (handle cfg e s))"

fun activationTimes :: "string \<Rightarrow> event list \<Rightarrow> int list" where
  "activationTimes v [] = []"
| "activationTimes v (KonamiActivated userId now # es) =
     (if userId = v then [now] else []) @ activationTimes v es"
| "activationTimes v (e # es) = activationTimes v es"

section \<open>The client hook \<^verbatim>\<open>useMultiplayer\<close>\<close>

text \<open>
  The refs and the state the estimator reads. \<^verbatim>\<open>actualDurationRef\<close> starts at 21.0
  and \<^verbatim>\<open>onDriftRef\<close> at \<^verbatim>\<open>null\<close>. The callback stored in \<^verbatim>\<open>onDriftRef\<close> is a
  closure of the component \<^verbatim>\<open>App\<close>; what it has captured of the audio hook's state,
  \<^verbatim>\<open>currentTime\<close> and \<^verbatim>\<open>duration\<close>, is the record \<open>drift_callback\<close>.
\<close>

record drift_callback =
  cb_currentTime :: real
  cb_duration :: real

record multiplayer =
  syncData :: "sync_payload option"
  actualDurationRef :: real
  latencyRef :: real
  latencyHistoryRef :: "real list"
  onDriftRef :: "drift_callback option"

definition initial_multiplayer :: multiplayer where
  "initial_multiplayer =
     \<lparr>syncData = None, actualDurationRef = 21, latencyRef = 0, latencyHistoryRef = [],
      onDriftRef = None\<rparr>"

text \<open>
  On every render: \<^verbatim>\<open>if (clientAudioDuration && clientAudioDuration > 0)
  actualDurationRef.current = clientAudioDuration\<close>. The argument is optional.
\<close>

definition setActualDuration :: "real option \<Rightarrow> multiplayer \<Rightarrow> multiplayer" where
  "setActualDuration clientAudioDuration m =
     (case clientAudioDuration of
        None \<Rightarrow> m
      | Some d \<Rightarrow> if d \<noteq> 0 \<and> d > 0 then m\<lparr>actualDurationRef := d\<rparr> else m)"

text \<open>
  \<^verbatim>\<open>updateLatency\<close>: push, drop the oldest sample once there are more than ten, sort
  a copy in ascending order and take the element at index \<^verbatim>\<open>Math.floor(length / 2)\<close>.
  The window is never empty at that point, so the index is within the sorted copy.
\<close>

definition updateLatency :: "real \<Rightarrow> multiplayer \<Rightarrow> multiplayer" where
  "updateLatency newLatency m =
     (let pushed = latencyHistoryRef m @ [newLatency];
          history = (if length pushed > 10 then tl pushed else pushed);
          sorted = sort history;
          median = sorted ! (length sorted div 2)
      in m\<lparr>latencyHistoryRef := history, latencyRef := median\<rparr>)"

fun updateLatencies :: "real list \<Rightarrow> multiplayer \<Rightarrow> multiplayer" where
  "updateLatencies [] m = m"
| "updateLatencies (l # ls) m = updateLatencies ls (updateLatency l m)"

text \<open>\<^verbatim>\<open>getCurrentSyncTime\<close>, with the clock reading \<^verbatim>\<open>Date.now()\<close> as \<open>clientNow\<close>.\<close>

record SyncTime =
  songTime :: real
  loopCount :: int
  elapsedTime :: real
  latency :: real

definition getCurrentSyncTime :: "int \<Rightarrow> multiplayer \<Rightarrow> SyncTime option" where
  "getCurrentSyncTime clientNow m =
     (case syncData m of
        None \<Rightarrow> None
      | Some sd \<Rightarrow>
          (let lat = latencyRef m;
               duration = actualDurationRef m;
               elapsed = (of_int (clientNow - p_serverStartTime sd) + lat) / 1000
           in Some \<lparr>songTime = jsRem elapsed duration,
                    loopCount = \<lfloor>elapsed / duration\<rfloor>,
                    elapsedTime = elapsed,
                    latency = lat\<rparr>))"

text \<open>
  The position estimate as the specification words it: the sum is divided by the local
  duration, and position and loop count are taken from that quotient.
\<close>

definition spec_expected :: "int \<Rightarrow> int \<Rightarrow> real \<Rightarrow> real \<Rightarrow> real" where
  "spec_expected localNow epoch smoothedLatency localDuration =
     (of_int (localNow - epoch) + smoothedLatency) / localDuration"

definition spec_songTime :: "int \<Rightarrow> int \<Rightarrow> real \<Rightarrow> real \<Rightarrow> real" where
  "spec_songTime localNow epoch smoothedLatency localDuration =
     floor_mod (spec_expected localNow epoch smoothedLatency localDuration) localDuration"

definition spec_loopCount :: "int \<Rightarrow> int \<Rightarrow> real \<Rightarrow> real \<Rightarrow> int" where
  "spec_loopCount localNow epoch smoothedLatency localDuration =
     \<lfloor>spec_expected localNow epoch smoothedLatency localDuration / localDuration\<rfloor>"

section \<open>Drift correction in \<^verbatim>\<open>App\<close>\<close>


text \<open>
  The effect that installs the drift callback returns at once unless the audio is
  playing and has a duration; otherwise it stores a callback that has captured the
  current \<^verbatim>\<open>currentTime\<close> and \<^verbatim>\<open>duration\<close>. The effect has no clean-up.
\<close>

definition driftEffect :: "bool \<Rightarrow> real \<Rightarrow> real \<Rightarrow> multiplayer \<Rightarrow> multiplayer" where
  "driftEffect playing duration currentTime m =
     (if \<not> playing \<or> duration = 0 then m
      else m\<lparr>onDriftRef := Some \<lparr>cb_currentTime = currentTime, cb_duration = duration\<rparr>\<rparr>)"



section \<open>The audio hook \<^verbatim>\<open>useAudioAnalyzer\<close>\<close>

text \<open>
  \<open>hasPlayer\<close> says that \<^verbatim>\<open>playerRef.current\<close> is set and \<open>playerStarted\<close> that the
  player's state is \<^verbatim>\<open>'started'\<close>. The calls made on the Tone.js player are returned
  as a list; \<open>Start None\<close> is \<^verbatim>\<open>start()\<close> and \<open>Start (Some v)\<close> is
  \<^verbatim>\<open>start(undefined, v)\<close>, playback from offset \<open>v\<close>.
\<close>

record player =
  hasPlayer :: bool
  isLoaded :: bool
  duration :: real
  playerStarted :: bool
  startTimeRef :: real
  isPlaying :: bool
  audioLoopCount :: int

datatype player_call = Stop | Start "real option"

text \<open>
  \<^verbatim>\<open>playAt(startOffset, serverLoopCount)\<close>: \<open>toneStarted\<close> is what
  \<^verbatim>\<open>ensureToneStarted()\<close> resolves to and \<open>toneNow\<close> the reading of \<^verbatim>\<open>Tone.now()\<close>.
  The result is the returned boolean, the state afterwards and the player calls.
\<close>

definition playAt ::
  "real \<Rightarrow> int \<Rightarrow> bool \<Rightarrow> real \<Rightarrow> player \<Rightarrow> bool \<times> player \<times> player_call list" where
  "playAt startOffset serverLoopCount toneStarted toneNow p =
     (if \<not> hasPlayer p \<or> \<not> isLoaded p \<or> duration p \<le> 0
      then (if hasPlayer p \<and> isLoaded p \<and> toneStarted
            then (True, p\<lparr>playerStarted := True, isPlaying := True\<rparr>, [Start None])
            else (False, p, []))
      else if \<not> toneStarted then (False, p, [])
      else
        (let stopped = (if playerStarted p then [Stop] else []);
             validOffset = max 0 (min startOffset (duration p - 0.01))
         in (True,
             p\<lparr>playerStarted := True,
               startTimeRef := toneNow - validOffset - of_int serverLoopCount * duration p,
               isPlaying := True,
               audioLoopCount := serverLoopCount\<rparr>,
             stopped @ [Start (Some validOffset)])))"


section \<open>Reference notions for the properties\<close>

text \<open>
  The debounce rule as the specification words it: an activation is let through when
  the viewer has no entry, or when at least the window of 1000 ms has passed since the
  entry's time.
\<close>

definition spec_accepts :: "int option \<Rightarrow> int \<Rightarrow> bool" where
  "spec_accepts entry now =
     (case entry of None \<Rightarrow> True | Some lastActivation \<Rightarrow> now - lastActivation \<ge> 1000)"

text \<open>
  The outcomes of one viewer's activations as a function of that viewer's entry and
  its own activation times only; \<open>outcomes\<close> is shown below to compute exactly this.
\<close>

fun gate :: "int option \<Rightarrow> int list \<Rightarrow> bool list" where
  "gate entry [] = []"
| "gate entry (t # ts) =
     (if t - (case entry of None \<Rightarrow> 0 | Some l \<Rightarrow> l) < 1000
      then False # gate entry ts else True # gate (Some t) ts)"

text \<open>
  The element \<^verbatim>\<open>updateLatency\<close> picks from a window: the one at index
  \<open>length div 2\<close> of the window in ascending order.
\<close>

definition medianOf :: "real list \<Rightarrow> real" where
  "medianOf h = sort h ! (length (sort h) div 2)"


section \<open>Example states\<close>

text \<open>
  A client that has received a sync message from a server started at time 1000, the
  same client once the audio plays at 20.9 s of a 21 s loop, the same client with a
  smoothed latency of 200 ms whose audio plays at 5.2 s, and a loaded player.
\<close>

definition example_sync :: sync_payload where
  "example_sync =
     \<lparr>p_serverStartTime = 1000, p_serverNow = 1500, p_songDuration = 21, p_songTime = 0.5,
      p_loopCount = 0, p_userId = ''a'', p_userColor = ''hsl(120, 80%, 60%)'',
      p_users = [\<lparr>u_id = ''a'', u_color = ''hsl(120, 80%, 60%)'', u_x = 0.5, u_y = 0.5\<rparr>],
      p_userCount = 1\<rparr>"

definition synced_multiplayer :: multiplayer where
  "synced_multiplayer = initial_multiplayer\<lparr>syncData := Some example_sync\<rparr>"



definition loaded_player :: player where
  "loaded_player =
     \<lparr>hasPlayer = True, isLoaded = True, duration = 21, playerStarted = True, startTimeRef = 0,
      isPlaying = True, audioLoopCount = 0\<rparr>"

section \<open>Properties of the remainder\<close>

lemma trunc_nonneg: "0 \<le> q \<Longrightarrow> trunc q = \<lfloor>q\<rfloor>"
  by (simp add: trunc_def)

lemma jsRem_eq_floor_mod:
  assumes "0 \<le> a" and "0 < b"
  shows "jsRem a b = floor_mod a b"
proof -
  from assms have "0 \<le> a / b" by simp
  then show ?thesis by (simp add: jsRem_def floor_mod_def trunc_nonneg)
qed

lemma floor_mod_nonneg:
  assumes "0 < d"
  shows "0 \<le> floor_mod a d"
proof -
  have "of_int \<lfloor>a / d\<rfloor> * d \<le> (a / d) * d"
    using assms by (intro mult_right_mono) simp_all
  also have "(a / d) * d = a"
    using assms by simp
  finally show ?thesis by (simp add: floor_mod_def mult.commute)
qed

lemma floor_mod_less:
  assumes "0 < d"
  shows "floor_mod a d < d"
proof -
  have "a / d < of_int \<lfloor>a / d\<rfloor> + 1" by linarith
  then have "(a / d) * d < (of_int \<lfloor>a / d\<rfloor> + 1) * d"
    using assms by (rule mult_strict_right_mono)
  with assms have "a < (of_int \<lfloor>a / d\<rfloor> + 1) * d"
    by simp
  then have "a < d * of_int \<lfloor>a / d\<rfloor> + d"
    by (simp add: algebra_simps)
  then show ?thesis by (simp add: floor_mod_def)
qed

section \<open>The clock authority\<close>

text \<open>
  Claim C1. With \<open>elapsed = (now - serverStartTime) / 1000\<close> the elapsed seconds, for
  every \<open>now\<close> at or after the epoch and every positive loop duration the song position
  \<^verbatim>\<open>getCurrentSongTime()\<close> is \<open>elapsed mod duration\<close>, lies in the half-open interval
  \<open>[0, duration)\<close>, and \<^verbatim>\<open>getLoopCount()\<close> is \<open>floor (elapsed / duration)\<close>.
\<close>

theorem clock_position_in_range:
  assumes "0 < SONG_DURATION cfg" and "serverStartTime cfg \<le> now"
  shows "getElapsedTime cfg now = of_int (now - serverStartTime cfg) / 1000
       \<and> getCurrentSongTime cfg now = floor_mod (getElapsedTime cfg now) (SONG_DURATION cfg)
       \<and> 0 \<le> getCurrentSongTime cfg now
       \<and> getCurrentSongTime cfg now < SONG_DURATION cfg
       \<and> getLoopCount cfg now = \<lfloor>getElapsedTime cfg now / SONG_DURATION cfg\<rfloor>"
proof -
  from assms(2) have el: "0 \<le> getElapsedTime cfg now"
    by (simp add: getElapsedTime_def)
  have eq: "getCurrentSongTime cfg now = floor_mod (getElapsedTime cfg now) (SONG_DURATION cfg)"
    unfolding getCurrentSongTime_def by (rule jsRem_eq_floor_mod [OF el assms(1)])
  show ?thesis
    using eq floor_mod_nonneg [OF assms(1)] floor_mod_less [OF assms(1)]
    by (simp add: getElapsedTime_def getLoopCount_def)
qed

text \<open>
  The specification's example: a reading taken 25 seconds after the epoch, with the
  source's duration of 21 seconds, is 4 seconds into the second pass of the loop.
\<close>

theorem clock_position_in_range_witness:
  "0 < SONG_DURATION (server_config 1000) \<and> serverStartTime (server_config 1000) \<le> 26000
   \<and> getCurrentSongTime (server_config 1000) 26000 = 4
   \<and> getLoopCount (server_config 1000) 26000 = 1
   \<and> 0 \<le> getCurrentSongTime (server_config 1000) 26000
   \<and> getCurrentSongTime (server_config 1000) 26000 < SONG_DURATION (server_config 1000)"
  using clock_position_in_range [of "server_config 1000" 26000]
  by (simp add: server_config_def getElapsedTime_def floor_mod_def)

section \<open>The debounced event gate\<close>

lemma konamiAccepted_iff:
  "konamiAccepted userId now s
     = (\<not> now - (case lastKonamiActivation s userId of None \<Rightarrow> 0 | Some t \<Rightarrow> t) < 1000)"
  by (simp add: konamiAccepted_def konamiActivated_def Let_def)

lemma konamiActivated_rejected:
  "\<not> konamiAccepted userId now s \<Longrightarrow> konamiActivated userId now s = (s, [])"
  by (simp add: konamiAccepted_iff konamiActivated_def Let_def)

lemma konamiActivated_accepted:
  "konamiAccepted userId now s \<Longrightarrow>
   konamiActivated userId now s =
     (s\<lparr>lastKonamiActivation := (lastKonamiActivation s)(userId \<mapsto> now),
        konamiActivations := konamiActivations s + 1\<rparr>,
      [SocketEmit userId (KonamiCount (konamiActivations s + 1))])"
  by (simp add: konamiAccepted_iff konamiActivated_def Let_def)

lemma lastKonami_after_activation:
  "lastKonamiActivation (fst (konamiActivated userId now s)) v =
     (if userId = v \<and> konamiAccepted userId now s then Some now else lastKonamiActivation s v)"
  by (cases "konamiAccepted userId now s")
     (simp_all add: konamiActivated_accepted konamiActivated_rejected)

lemma lastKonami_connection:
  "lastKonamiActivation (fst (connection cfg userId userColor t1 t2 t3 s)) = lastKonamiActivation s"
  by (simp add: connection_def Let_def)

lemma lastKonami_cursorMove:
  "lastKonamiActivation (fst (cursorMove userId dx dy s)) = lastKonamiActivation s"
  by (simp add: cursorMove_def split: option.splits)

lemma lastKonami_disconnect:
  "lastKonamiActivation (fst (disconnect userId s)) = lastKonamiActivation s"
  by (simp add: disconnect_def Let_def)

lemma outcomes_gate:
  "outcomes cfg v evs s = gate (lastKonamiActivation s v) (activationTimes v evs)"
proof (induction evs arbitrary: s)
  case Nil
  show ?case by simp
next
  case (Cons e evs)
  show ?case
  proof (cases e)
    case (KonamiActivated userId now)
    then show ?thesis
      by (simp add: Cons.IH lastKonami_after_activation konamiAccepted_iff)
  qed (simp_all add: Cons.IH lastKonami_connection lastKonami_cursorMove lastKonami_disconnect)
qed

text \<open>
  Claim C2. \<open>now\<close> is the reading of \<^verbatim>\<open>Date.now()\<close>, milliseconds since 1970, so every
  reading of a running server is at least 1000. An activation at time \<open>now\<close> is
  accepted if and only if the viewer has no debounce entry or \<open>now - lastActivation\<close>
  is at least 1000 ms. When it is accepted the counter grows by exactly one, the
  viewer's entry becomes \<open>now\<close>, every other entry and the registry stay as they
  were, and the new total is sent to the requester alone. When it is rejected the
  state is unchanged and nothing is sent. For a viewer without an entry, of two
  activations 0 ms and 500 ms after any such reading exactly the first is accepted, and
  a third 1500 ms after it is accepted.
\<close>

theorem debounce_gate:
  assumes "1000 \<le> now"
  shows "konamiAccepted userId now s = spec_accepts (lastKonamiActivation s userId) now
       \<and> (konamiAccepted userId now s \<longrightarrow>
            konamiActivated userId now s =
              (s\<lparr>lastKonamiActivation := (lastKonamiActivation s)(userId \<mapsto> now),
                 konamiActivations := konamiActivations s + 1\<rparr>,
               [SocketEmit userId (KonamiCount (konamiActivations s + 1))]))
       \<and> (\<not> konamiAccepted userId now s \<longrightarrow> konamiActivated userId now s = (s, []))
       \<and> (lastKonamiActivation s userId = None \<longrightarrow>
            outcomes cfg userId
              [KonamiActivated userId now, KonamiActivated userId (now + 500),
               KonamiActivated userId (now + 1500)] s = [True, False, True])"
proof (intro conjI impI)
  show "konamiAccepted userId now s = spec_accepts (lastKonamiActivation s userId) now"
    using assms by (auto simp: konamiAccepted_iff spec_accepts_def split: option.splits)
next
  assume "lastKonamiActivation s userId = None"
  with assms have "gate (lastKonamiActivation s userId) [now, now + 500, now + 1500]
      = [True, False, True]"
    by simp
  then show "outcomes cfg userId
              [KonamiActivated userId now, KonamiActivated userId (now + 500),
               KonamiActivated userId (now + 1500)] s = [True, False, True]"
    by (simp add: outcomes_gate)
qed (simp_all add: konamiActivated_accepted konamiActivated_rejected)

theorem debounce_gate_witness:
  "(1000::int) \<le> 5000
   \<and> lastKonamiActivation initial_server ''viewer'' = None
   \<and> konamiAccepted ''viewer'' 5000 initial_server
   \<and> lastKonamiActivation (fst (konamiActivated ''viewer'' 5000 initial_server)) ''viewer'' = Some 5000
   \<and> konamiActivations (fst (konamiActivated ''viewer'' 5000 initial_server)) = 1
   \<and> snd (konamiActivated ''viewer'' 5000 initial_server) = [SocketEmit ''viewer'' (KonamiCount 1)]
   \<and> \<not> konamiAccepted ''viewer'' 5500 (fst (konamiActivated ''viewer'' 5000 initial_server))
   \<and> outcomes (server_config 0) ''viewer''
        [KonamiActivated ''viewer'' 5000, KonamiActivated ''viewer'' 5500,
         KonamiActivated ''viewer'' 6500] initial_server = [True, False, True]"
  using debounce_gate [of 5000 "''viewer''" initial_server "server_config 0"]
    debounce_gate [of 5500 "''viewer''" "fst (konamiActivated ''viewer'' 5000 initial_server)" "server_config 0"]
  by (simp add: initial_server_def spec_accepts_def konamiAccepted_iff konamiActivated_def)

text \<open>
  Claim C3. The outcomes of viewer \<open>B\<close>'s activations are the same in any two runs in
  which \<open>B\<close> starts with the same entry and has the same activation history, whatever
  the other viewers and the other events of the two runs are. Two distinct viewers
  without entries that activate 100 ms apart, at clock readings \<open>T\<close> and \<open>T + 100\<close>
  of a running server, are both accepted.
\<close>

theorem debounce_per_viewer:
  "(lastKonamiActivation s1 B = lastKonamiActivation s2 B
      \<and> activationTimes B evs1 = activationTimes B evs2
     \<longrightarrow> outcomes cfg B evs1 s1 = outcomes cfg B evs2 s2)
   \<and> (A \<noteq> B \<and> 1000 \<le> T \<and> lastKonamiActivation s A = None \<and> lastKonamiActivation s B = None
     \<longrightarrow> outcomes cfg A [KonamiActivated A T, KonamiActivated B (T + 100)] s = [True]
       \<and> outcomes cfg B [KonamiActivated A T, KonamiActivated B (T + 100)] s = [True])"
  by (simp add: outcomes_gate)

theorem debounce_per_viewer_witness:
  "outcomes (server_config 0) ''B''
      [KonamiActivated ''A'' 5000, KonamiActivated ''B'' 5100, KonamiActivated ''A'' 5200,
       KonamiActivated ''B'' 5300] initial_server
    = outcomes (server_config 0) ''B''
      [KonamiActivated ''B'' 5100, KonamiActivated ''B'' 5300] initial_server
   \<and> outcomes (server_config 0) ''A''
        [KonamiActivated ''A'' 5000, KonamiActivated ''B'' 5100] initial_server = [True]
   \<and> outcomes (server_config 0) ''B''
        [KonamiActivated ''A'' 5000, KonamiActivated ''B'' 5100] initial_server = [True]"
  using debounce_per_viewer [of initial_server "''B''" initial_server
      "[KonamiActivated ''A'' 5000, KonamiActivated ''B'' 5100, KonamiActivated ''A'' 5200,
       KonamiActivated ''B'' 5300]" "[KonamiActivated ''B'' 5100, KonamiActivated ''B'' 5300]"
      "server_config 0" "''A''" 5000 initial_server]
  by (simp add: initial_server_def konamiAccepted_iff konamiActivated_def)

section \<open>The session registry\<close>

text \<open>
  The keys of the registry stay distinct, so its length is the number of sessions.
\<close>

lemma handle_distinct:
  assumes "distinct (map fst (users s))"
  shows "distinct (map fst (users (fst (handle cfg e s))))"
  using assms
  by (cases e)
     (simp_all add: connection_def cursorMove_def disconnect_def konamiActivated_def Let_def
        AList.distinct_update AList.distinct_delete split: option.splits)

lemma update_absent_appends:
  "map_of al k = None \<Longrightarrow> AList.update k v al = al @ [(k, v)]"
  by (induction al) (auto split: if_splits)

lemma update_present_keys:
  "map_of al k = Some w \<Longrightarrow> map fst (AList.update k v al) = map fst al"
  by (induction al) (auto split: if_splits)

lemma map_of_delete_self: "map_of (AList.delete k al) k = None"
  by (simp add: AList.delete_conv')

text \<open>
  Claim C7, as the connection handler behaves. Joining has no failure case: it stores
  under the id a session with the given colour and the pointer at the centre
  \<open>(0.5, 0.5)\<close>, leaves every other session, the counter and the debounce table
  unchanged, and when the id was not present appends exactly that session to the
  registry. The requester gets the sync message and the others the join notice.
\<close>

theorem connection_joins:
  assumes "connection cfg userId userColor t1 t2 t3 s = (s', out)" and "0 < SONG_DURATION cfg"
  shows "map_of (users s') userId
           = Some \<lparr>u_id = userId, u_color = userColor, u_x = 0.5, u_y = 0.5\<rparr>
       \<and> (\<forall>v. v \<noteq> userId \<longrightarrow> map_of (users s') v = map_of (users s) v)
       \<and> (map_of (users s) userId = None \<longrightarrow>
            users s' = users s @ [(userId, \<lparr>u_id = userId, u_color = userColor, u_x = 0.5, u_y = 0.5\<rparr>)])
       \<and> konamiActivations s' = konamiActivations s
       \<and> lastKonamiActivation s' = lastKonamiActivation s
       \<and> out = [SocketEmit userId (Sync
                   \<lparr>p_serverStartTime = serverStartTime cfg, p_serverNow = t1,
                    p_songDuration = SONG_DURATION cfg,
                    p_songTime = getCurrentSongTime cfg t2, p_loopCount = getLoopCount cfg t3,
                    p_userId = userId, p_userColor = userColor,
                    p_users = map snd (users s'), p_userCount = length (users s')\<rparr>),
                 SocketBroadcast userId
                   (UserJoined (Some \<lparr>u_id = userId, u_color = userColor, u_x = 0.5, u_y = 0.5\<rparr>)
                      (length (users s')))]"
proof -
  let ?u = "\<lparr>u_id = userId, u_color = userColor, u_x = 0.5, u_y = 0.5\<rparr>"
  from assms(1) have s': "s' = s\<lparr>users := AList.update userId ?u (users s)\<rparr>"
    by (simp add: connection_def Let_def prod_eq_iff)
  have lookup: "map_of (users s') userId = Some ?u"
    by (simp add: s' AList.update_conv')
  have others: "\<forall>v. v \<noteq> userId \<longrightarrow> map_of (users s') v = map_of (users s) v"
    by (simp add: s' AList.update_conv')
  have fresh: "map_of (users s) userId = None \<longrightarrow> users s' = users s @ [(userId, ?u)]"
    by (simp add: s' update_absent_appends)
  have rest: "konamiActivations s' = konamiActivations s"
    "lastKonamiActivation s' = lastKonamiActivation s"
    by (simp_all add: s')
  from assms(1) have "out = snd (connection cfg userId userColor t1 t2 t3 s)"
    by simp
  then have out: "out = [SocketEmit userId (Sync
                   \<lparr>p_serverStartTime = serverStartTime cfg, p_serverNow = t1,
                    p_songDuration = SONG_DURATION cfg,
                    p_songTime = getCurrentSongTime cfg t2, p_loopCount = getLoopCount cfg t3,
                    p_userId = userId, p_userColor = userColor,
                    p_users = map snd (users s'), p_userCount = length (users s')\<rparr>),
                 SocketBroadcast userId (UserJoined (Some ?u) (length (users s')))]"
    using lookup by (simp add: connection_def Let_def s')
  from lookup others fresh rest out show ?thesis by blast
qed

theorem connection_joins_witness:
  "0 < SONG_DURATION (server_config 0)
   \<and> map_of (users (fst (connection (server_config 0) ''a'' ''hsl(120, 80%, 60%)'' 5 5 5 initial_server))) ''a''
     = Some \<lparr>u_id = ''a'', u_color = ''hsl(120, 80%, 60%)'', u_x = 0.5, u_y = 0.5\<rparr>
   \<and> users (fst (connection (server_config 0) ''a'' ''hsl(120, 80%, 60%)'' 5 5 5 initial_server))
     = [(''a'', \<lparr>u_id = ''a'', u_color = ''hsl(120, 80%, 60%)'', u_x = 0.5, u_y = 0.5\<rparr>)]"
  using connection_joins [of "server_config 0" "''a''" "''hsl(120, 80%, 60%)''" 5 5 5 initial_server
      "fst (connection (server_config 0) ''a'' ''hsl(120, 80%, 60%)'' 5 5 5 initial_server)"
      "snd (connection (server_config 0) ''a'' ''hsl(120, 80%, 60%)'' 5 5 5 initial_server)"]
  by (simp add: initial_server_def server_config_def)

text \<open>
  A second connection under an id already in the registry does not fail: the session
  stored there, with its colour and pointer, is replaced.
\<close>

theorem connection_replaces_counterexample:
  "map_of (users \<lparr>users = [(''a'', \<lparr>u_id = ''a'', u_color = ''hsl(10, 80%, 60%)'', u_x = 0.1, u_y = 0.9\<rparr>)],
                  konamiActivations = 0, lastKonamiActivation = Map.empty\<rparr>) ''a''
     = Some \<lparr>u_id = ''a'', u_color = ''hsl(10, 80%, 60%)'', u_x = 0.1, u_y = 0.9\<rparr>
   \<and> users (fst (connection (server_config 0) ''a'' ''hsl(120, 80%, 60%)'' 5 5 5
        \<lparr>users = [(''a'', \<lparr>u_id = ''a'', u_color = ''hsl(10, 80%, 60%)'', u_x = 0.1, u_y = 0.9\<rparr>)],
         konamiActivations = 0, lastKonamiActivation = Map.empty\<rparr>))
     = [(''a'', \<lparr>u_id = ''a'', u_color = ''hsl(120, 80%, 60%)'', u_x = 0.5, u_y = 0.5\<rparr>)]"
  by (simp add: connection_def Let_def)

text \<open>
  Claim C8. A cursor update for an id that is not in the registry changes nothing and
  sends nothing. For an id that is present it sets that session's pointer, keeps its
  id and colour, keeps every other session, the order of the registry, the counter and
  the debounce table, and sends one update that reaches every session except the
  sender.
\<close>

theorem cursorMove_updates_pointer:
  "(map_of (users s) userId = None \<longrightarrow> cursorMove userId dx dy s = (s, []))
   \<and> (map_of (users s) userId = Some u \<longrightarrow>
        snd (cursorMove userId dx dy s) = [SocketBroadcast userId (CursorUpdate userId dx dy)]
        \<and> recipients (fst (cursorMove userId dx dy s))
             (SocketBroadcast userId (CursorUpdate userId dx dy))
            = fst ` set (users s) - {userId}
        \<and> map_of (users (fst (cursorMove userId dx dy s))) userId
            = Some \<lparr>u_id = u_id u, u_color = u_color u, u_x = dx, u_y = dy\<rparr>
        \<and> (\<forall>v. v \<noteq> userId \<longrightarrow>
              map_of (users (fst (cursorMove userId dx dy s))) v = map_of (users s) v)
        \<and> map fst (users (fst (cursorMove userId dx dy s))) = map fst (users s)
        \<and> konamiActivations (fst (cursorMove userId dx dy s)) = konamiActivations s
        \<and> lastKonamiActivation (fst (cursorMove userId dx dy s)) = lastKonamiActivation s)"
proof (intro conjI impI)
  assume "map_of (users s) userId = None"
  then show "cursorMove userId dx dy s = (s, [])"
    by (simp add: cursorMove_def)
next
  assume present: "map_of (users s) userId = Some u"
  then have step: "cursorMove userId dx dy s =
      (s\<lparr>users := AList.update userId (u\<lparr>u_x := dx, u_y := dy\<rparr>) (users s)\<rparr>,
       [SocketBroadcast userId (CursorUpdate userId dx dy)])"
    by (simp add: cursorMove_def)
  have keys: "map fst (AList.update userId (u\<lparr>u_x := dx, u_y := dy\<rparr>) (users s)) = map fst (users s)"
    using present by (rule update_present_keys)
  show "snd (cursorMove userId dx dy s) = [SocketBroadcast userId (CursorUpdate userId dx dy)]"
    by (simp add: step)
  show "map fst (users (fst (cursorMove userId dx dy s))) = map fst (users s)"
    by (simp add: step keys)
  then have "fst ` set (users (fst (cursorMove userId dx dy s))) = fst ` set (users s)"
    by (metis list.set_map)
  then show "recipients (fst (cursorMove userId dx dy s))
             (SocketBroadcast userId (CursorUpdate userId dx dy))
            = fst ` set (users s) - {userId}"
    by simp
  show "map_of (users (fst (cursorMove userId dx dy s))) userId
            = Some \<lparr>u_id = u_id u, u_color = u_color u, u_x = dx, u_y = dy\<rparr>"
    by (simp add: step AList.update_conv')
  show "\<forall>v. v \<noteq> userId \<longrightarrow>
              map_of (users (fst (cursorMove userId dx dy s))) v = map_of (users s) v"
    by (simp add: step AList.update_conv')
  show "konamiActivations (fst (cursorMove userId dx dy s)) = konamiActivations s"
    by (simp add: step)
  show "lastKonamiActivation (fst (cursorMove userId dx dy s)) = lastKonamiActivation s"
    by (simp add: step)
qed

theorem cursorMove_updates_pointer_witness:
  "map_of (users (fst (connection (server_config 0) ''a'' ''hsl(120, 80%, 60%)'' 5 5 5 initial_server))) ''a''
     = Some \<lparr>u_id = ''a'', u_color = ''hsl(120, 80%, 60%)'', u_x = 0.5, u_y = 0.5\<rparr>
   \<and> map_of (users (fst (cursorMove ''a'' 0.25 0.75
        (fst (connection (server_config 0) ''a'' ''hsl(120, 80%, 60%)'' 5 5 5 initial_server))))) ''a''
     = Some \<lparr>u_id = ''a'', u_color = ''hsl(120, 80%, 60%)'', u_x = 0.25, u_y = 0.75\<rparr>
   \<and> snd (cursorMove ''a'' 0.25 0.75
        (fst (connection (server_config 0) ''a'' ''hsl(120, 80%, 60%)'' 5 5 5 initial_server)))
     = [SocketBroadcast ''a'' (CursorUpdate ''a'' 0.25 0.75)]
   \<and> map_of (users initial_server) ''gone'' = None
   \<and> cursorMove ''gone'' 0.25 0.75 initial_server = (initial_server, [])"
proof -
  let ?s = "fst (connection (server_config 0) ''a'' ''hsl(120, 80%, 60%)'' 5 5 5 initial_server)"
  let ?u = "\<lparr>u_id = ''a'', u_color = ''hsl(120, 80%, 60%)'', u_x = 0.5, u_y = 0.5\<rparr>"
  have present: "map_of (users ?s) ''a'' = Some ?u"
    by (simp add: connection_def Let_def initial_server_def)
  have absent: "map_of (users initial_server) ''gone'' = None"
    by (simp add: initial_server_def)
  from cursorMove_updates_pointer [of ?s "''a''" "0.25" "0.75" ?u]
    cursorMove_updates_pointer [of initial_server "''gone''" "0.25" "0.75" ?u]
    present absent
  show ?thesis by simp
qed

text \<open>
  Claim C9, as the disconnect handler behaves. The viewer is removed from the registry
  before the leave notice is built: the notice carries the count after the removal
  and is not addressed to the viewer. Every other session, the counter and the whole
  debounce table, the departing viewer's entry included, are left as they were.
\<close>

theorem disconnect_removes_session:
  "map_of (users (fst (disconnect userId s))) userId = None
   \<and> (\<forall>v. v \<noteq> userId \<longrightarrow> map_of (users (fst (disconnect userId s))) v = map_of (users s) v)
   \<and> lastKonamiActivation (fst (disconnect userId s)) = lastKonamiActivation s
   \<and> konamiActivations (fst (disconnect userId s)) = konamiActivations s
   \<and> snd (disconnect userId s)
       = [IoEmit (UserLeft userId (length (users (fst (disconnect userId s)))))]
   \<and> userId \<notin> recipients (fst (disconnect userId s))
                 (IoEmit (UserLeft userId (length (users (fst (disconnect userId s))))))"
proof -
  have "userId \<notin> fst ` set (AList.delete userId (users s))"
    by (auto simp: AList.delete_eq)
  then show ?thesis
    by (simp add: disconnect_def Let_def map_of_delete_self)
qed

theorem disconnect_removes_session_witness:
  "map_of (users (fst (disconnect ''a''
      (fst (connection (server_config 0) ''a'' ''hsl(120, 80%, 60%)'' 5 5 5 initial_server))))) ''a'' = None
   \<and> snd (disconnect ''a''
      (fst (connection (server_config 0) ''a'' ''hsl(120, 80%, 60%)'' 5 5 5 initial_server)))
     = [IoEmit (UserLeft ''a'' 0)]"
  using disconnect_removes_session
    [of "''a''" "fst (connection (server_config 0) ''a'' ''hsl(120, 80%, 60%)'' 5 5 5 initial_server)"]
  by (simp add: connection_def disconnect_def Let_def initial_server_def AList.delete_eq)

text \<open>
  A reachable state with a debounce entry for a viewer that is no longer in the
  registry: connect, activate, disconnect.
\<close>

theorem disconnect_keeps_debounce_counterexample:
  "lastKonamiActivation
     (run (server_config 0)
        [Connection ''a'' ''hsl(120, 80%, 60%)'' 5000 5000 5000, KonamiActivated ''a'' 6000,
         Disconnect ''a''] initial_server) ''a'' = Some 6000
   \<and> map_of (users (run (server_config 0)
        [Connection ''a'' ''hsl(120, 80%, 60%)'' 5000 5000 5000, KonamiActivated ''a'' 6000,
         Disconnect ''a''] initial_server)) ''a'' = None"
  by (simp add: initial_server_def connection_def konamiActivated_def disconnect_def Let_def
      AList.delete_eq)

section \<open>The latency window\<close>

lemma sorted_nth_count_le:
  fixes ys :: "real list"
  assumes "sorted ys" and "i < length ys"
  shows "Suc i \<le> length (filter (\<lambda>x. x \<le> ys ! i) ys)"
proof -
  have all: "\<forall>x \<in> set (take (Suc i) ys). x \<le> ys ! i"
  proof
    fix x assume "x \<in> set (take (Suc i) ys)"
    then obtain j where "j < Suc i" and "j < length ys" and "x = ys ! j"
      by (auto simp: in_set_conv_nth)
    with assms show "x \<le> ys ! i"
      by (simp add: sorted_nth_mono)
  qed
  have "filter (\<lambda>x. x \<le> ys ! i) ys
      = filter (\<lambda>x. x \<le> ys ! i) (take (Suc i) ys) @ filter (\<lambda>x. x \<le> ys ! i) (drop (Suc i) ys)"
    by (metis append_take_drop_id filter_append)
  also have "filter (\<lambda>x. x \<le> ys ! i) (take (Suc i) ys) = take (Suc i) ys"
    using all by simp
  finally have "length (filter (\<lambda>x. x \<le> ys ! i) ys) \<ge> length (take (Suc i) ys)"
    by simp
  with assms(2) show ?thesis by simp
qed

lemma sorted_nth_count_ge:
  fixes ys :: "real list"
  assumes "sorted ys" and "i < length ys"
  shows "length ys - i \<le> length (filter (\<lambda>x. ys ! i \<le> x) ys)"
proof -
  have all: "\<forall>x \<in> set (drop i ys). ys ! i \<le> x"
  proof
    fix x assume "x \<in> set (drop i ys)"
    then obtain j where "j < length ys - i" and "x = ys ! (i + j)"
      by (auto simp: in_set_conv_nth)
    with assms show "ys ! i \<le> x"
      by (simp add: sorted_nth_mono)
  qed
  have "filter (\<lambda>x. ys ! i \<le> x) ys
      = filter (\<lambda>x. ys ! i \<le> x) (take i ys) @ filter (\<lambda>x. ys ! i \<le> x) (drop i ys)"
    by (metis append_take_drop_id filter_append)
  also have "filter (\<lambda>x. ys ! i \<le> x) (drop i ys) = drop i ys"
    using all by simp
  finally have "length (filter (\<lambda>x. ys ! i \<le> x) ys) \<ge> length (drop i ys)"
    by simp
  then show ?thesis by simp
qed

lemma length_filter_sort:
  fixes h :: "real list"
  shows "length (filter P (sort h)) = length (filter P h)"
  by (simp add: filter_sort)

lemma medianOf_in_set: "h \<noteq> [] \<Longrightarrow> medianOf h \<in> set h"
proof -
  assume "h \<noteq> []"
  then have "length (sort h) div 2 < length (sort h)" by (cases h) simp_all
  then have "sort h ! (length (sort h) div 2) \<in> set (sort h)" by (rule nth_mem)
  then show ?thesis by (simp add: medianOf_def)
qed

lemma medianOf_half_below:
  assumes "h \<noteq> []"
  shows "length h \<le> 2 * length (filter (\<lambda>x. x \<le> medianOf h) h)"
proof -
  from assms have idx: "length (sort h) div 2 < length (sort h)" by (cases h) simp_all
  have "Suc (length (sort h) div 2) \<le> length (filter (\<lambda>x. x \<le> medianOf h) (sort h))"
    unfolding medianOf_def by (rule sorted_nth_count_le [OF sorted_sort idx])
  then have "Suc (length h div 2) \<le> length (filter (\<lambda>x. x \<le> medianOf h) h)"
    by (simp add: length_filter_sort)
  then show ?thesis by linarith
qed

lemma medianOf_half_above:
  assumes "h \<noteq> []"
  shows "length h \<le> 2 * length (filter (\<lambda>x. medianOf h \<le> x) h)"
proof -
  from assms have idx: "length (sort h) div 2 < length (sort h)" by (cases h) simp_all
  have "length (sort h) - length (sort h) div 2 \<le> length (filter (\<lambda>x. medianOf h \<le> x) (sort h))"
    unfolding medianOf_def by (rule sorted_nth_count_ge [OF sorted_sort idx])
  then have "length h - length h div 2 \<le> length (filter (\<lambda>x. medianOf h \<le> x) h)"
    by (simp add: length_filter_sort)
  then show ?thesis by linarith
qed

lemma medianOf_robust:
  assumes "h \<noteq> []" and "2 * length (filter (\<lambda>x. b < x) h) < length h"
  shows "medianOf h \<le> b"
proof (rule ccontr)
  assume "\<not> medianOf h \<le> b"
  then have above: "b < medianOf h" by simp
  have "length (filter (\<lambda>x. medianOf h \<le> x) h) \<le> length (filter (\<lambda>x. b < x) h)"
  proof -
    have "filter (\<lambda>x. medianOf h \<le> x) h = filter (\<lambda>x. medianOf h \<le> x) (filter (\<lambda>x. b < x) h)"
      using above by (auto intro: filter_cong)
    then show ?thesis by (metis length_filter_le)
  qed
  with medianOf_half_above [OF assms(1)] assms(2) show False by linarith
qed

lemma updateLatency_history:
  "latencyHistoryRef (updateLatency l m) =
     (if length (latencyHistoryRef m) \<ge> 10 then tl (latencyHistoryRef m @ [l])
      else latencyHistoryRef m @ [l])"
  by (simp add: updateLatency_def Let_def)

lemma updateLatency_latency:
  "latencyRef (updateLatency l m) = medianOf (latencyHistoryRef (updateLatency l m))"
  by (simp add: updateLatency_def Let_def medianOf_def)

lemma updateLatency_history_nonempty: "latencyHistoryRef (updateLatency l m) \<noteq> []"
  by (cases "latencyHistoryRef m") (simp_all add: updateLatency_history)

lemma updateLatency_window:
  assumes "length (latencyHistoryRef m) \<le> 10"
  shows "latencyHistoryRef (updateLatency l m)
       = drop (length (latencyHistoryRef m @ [l]) - 10) (latencyHistoryRef m @ [l])"
proof (cases "length (latencyHistoryRef m) = 10")
  case True
  then show ?thesis
    by (cases "latencyHistoryRef m") (simp_all add: updateLatency_history)
next
  case False
  with assms show ?thesis by (simp add: updateLatency_history)
qed

lemma updateLatencies_window:
  assumes "length (latencyHistoryRef m) \<le> 10"
  shows "latencyHistoryRef (updateLatencies samples m)
       = drop (length (latencyHistoryRef m @ samples) - 10) (latencyHistoryRef m @ samples)"
  using assms
proof (induction samples arbitrary: m)
  case Nil
  then show ?case by simp
next
  case (Cons l ls)
  let ?h = "latencyHistoryRef m"
  have w: "latencyHistoryRef (updateLatency l m) = drop (length (?h @ [l]) - 10) (?h @ [l])"
    using Cons.prems by (rule updateLatency_window)
  then have len: "length (latencyHistoryRef (updateLatency l m)) \<le> 10"
    using Cons.prems by simp
  have "latencyHistoryRef (updateLatencies (l # ls) m)
      = drop (length (latencyHistoryRef (updateLatency l m) @ ls) - 10)
          (latencyHistoryRef (updateLatency l m) @ ls)"
    using Cons.IH [OF len] by simp
  also have "\<dots> = drop (length (?h @ l # ls) - 10) (?h @ l # ls)"
  proof (cases "length ?h = 10")
    case True
    then have "latencyHistoryRef (updateLatency l m) = drop 1 (?h @ [l])"
      using w by simp
    then have "latencyHistoryRef (updateLatency l m) @ ls = drop 1 (?h @ l # ls)"
      using True by simp
    then show ?thesis using True by simp
  next
    case False
    with Cons.prems have "latencyHistoryRef (updateLatency l m) = ?h @ [l]"
      using w by simp
    then show ?thesis by simp
  qed
  finally show ?case .
qed

lemma updateLatencies_snoc:
  "updateLatencies (ls @ [l]) m = updateLatency l (updateLatencies ls m)"
  by (induction ls arbitrary: m) simp_all

lemma updateLatencies_latency:
  assumes "samples \<noteq> []"
  shows "latencyRef (updateLatencies samples m) = medianOf (latencyHistoryRef (updateLatencies samples m))"
    and "latencyHistoryRef (updateLatencies samples m) \<noteq> []"
proof -
  from assms obtain ls l where "samples = ls @ [l]"
    by (metis append_butlast_last_id)
  then show "latencyRef (updateLatencies samples m) = medianOf (latencyHistoryRef (updateLatencies samples m))"
    and "latencyHistoryRef (updateLatencies samples m) \<noteq> []"
    by (simp_all add: updateLatencies_snoc updateLatency_latency updateLatency_history_nonempty)
qed

text \<open>
  Claim C6. After any non-empty sequence of samples, fed one by one into an empty
  history, the window holds the last at most ten samples in arrival order, and the
  smoothed latency is a median of the window: it is the element in the middle of the
  sorted window, at least half of the window is at or below it and at least half at or
  above it. Hence a bound \<open>b\<close> that fewer than half of the window exceed bounds the
  smoothed latency: one sample of 5000 ms among nine of about 50 ms leaves it at or
  below 60 ms.
\<close>

theorem latency_median_window:
  assumes "latencyHistoryRef m = []" and "samples \<noteq> []"
    and "h = latencyHistoryRef (updateLatencies samples m)"
    and "smoothed = latencyRef (updateLatencies samples m)"
  shows "h = drop (length samples - 10) samples
       \<and> length h = min 10 (length samples)
       \<and> smoothed = sort h ! (length h div 2)
       \<and> smoothed \<in> set h
       \<and> length h \<le> 2 * length (filter (\<lambda>x. x \<le> smoothed) h)
       \<and> length h \<le> 2 * length (filter (\<lambda>x. smoothed \<le> x) h)
       \<and> (2 * length (filter (\<lambda>x. b < x) h) < length h \<longrightarrow> smoothed \<le> b)"
proof -
  have win: "h = drop (length samples - 10) samples"
    using updateLatencies_window [of m samples] assms(1,3) by simp
  then have len: "length h = min 10 (length samples)"
    by auto
  have ne: "h \<noteq> []" and med: "smoothed = medianOf h"
    using updateLatencies_latency [OF assms(2), of m] assms(3,4) by simp_all
  have idx: "smoothed = sort h ! (length h div 2)"
    by (simp add: med medianOf_def)
  show ?thesis
    using win len idx medianOf_in_set [OF ne] medianOf_half_below [OF ne]
      medianOf_half_above [OF ne] medianOf_robust [OF ne, of b]
    unfolding med [symmetric] by blast
qed

theorem latency_median_window_witness:
  "latencyHistoryRef initial_multiplayer = []
   \<and> latencyHistoryRef (updateLatencies [40, 50, 48, 52, 5000, 51, 49, 50, 53, 47, 50] initial_multiplayer)
       = [50, 48, 52, 5000, 51, 49, 50, 53, 47, 50]
   \<and> latencyRef (updateLatencies [40, 50, 48, 52, 5000, 51, 49, 50, 53, 47, 50] initial_multiplayer) = 50
   \<and> latencyRef (updateLatencies [40, 50, 48, 52, 5000, 51, 49, 50, 53, 47, 50] initial_multiplayer) \<le> 60"
  using latency_median_window [of initial_multiplayer "[40, 50, 48, 52, 5000, 51, 49, 50, 53, 47, 50]"
      "latencyHistoryRef (updateLatencies [40, 50, 48, 52, 5000, 51, 49, 50, 53, 47, 50] initial_multiplayer)"
      "latencyRef (updateLatencies [40, 50, 48, 52, 5000, 51, 49, 50, 53, 47, 50] initial_multiplayer)" 60]
  by (simp add: initial_multiplayer_def)

section \<open>The position estimate\<close>

text \<open>
  The local duration is positive from the start and stays so: only a positive measured
  duration is ever stored. It is the divisor of every remainder the client computes.
\<close>

lemma actualDurationRef_positive:
  "0 < actualDurationRef initial_multiplayer"
  "0 < actualDurationRef m \<Longrightarrow> 0 < actualDurationRef (setActualDuration clientAudioDuration m)"
  "0 < actualDurationRef m \<Longrightarrow> 0 < actualDurationRef (updateLatency l m)"
  "0 < actualDurationRef m \<Longrightarrow> 0 < actualDurationRef (driftEffect playing audioDuration t m)"
  by (simp_all add: initial_multiplayer_def setActualDuration_def updateLatency_def
      driftEffect_def Let_def split: option.splits)

text \<open>
  Claim C4, with the division by 1000 that the code performs. The elapsed time is
  \<open>e = (clientNow - serverStartTime + latency) / 1000\<close> seconds; the estimate has
  \<open>songTime = e % d\<close> and \<open>loopCount = floor (e / d)\<close> for the local duration \<open>d\<close>.
  For \<open>e \<ge> 0\<close> the remainder is the mathematical \<open>e mod d\<close> and lies in \<open>[0, d)\<close>.
  The duration used is the client's own: the server's \<^verbatim>\<open>songDuration\<close> has no
  influence, and a positive measured duration replaces the built-in 21.0.
\<close>

theorem sync_position_estimate:
  assumes "syncData m = Some sd"
    and "e = (of_int (clientNow - p_serverStartTime sd) + latencyRef m) / 1000"
    and "d = actualDurationRef m"
    and "0 < actualDurationRef m"
  shows "getCurrentSyncTime clientNow m
           = Some \<lparr>songTime = jsRem e d, loopCount = \<lfloor>e / d\<rfloor>, elapsedTime = e,
                   latency = latencyRef m\<rparr>
       \<and> (0 \<le> e \<longrightarrow>
            jsRem e d = floor_mod e d \<and> 0 \<le> jsRem e d \<and> jsRem e d < d)
       \<and> getCurrentSyncTime clientNow (m\<lparr>syncData := Some (sd\<lparr>p_songDuration := nominal\<rparr>)\<rparr>)
           = getCurrentSyncTime clientNow m
       \<and> (0 < measured \<longrightarrow> actualDurationRef (setActualDuration (Some measured) m) = measured)"
proof -
  have est: "getCurrentSyncTime clientNow m
           = Some \<lparr>songTime = jsRem e d, loopCount = \<lfloor>e / d\<rfloor>, elapsedTime = e,
                   latency = latencyRef m\<rparr>"
    unfolding assms(2,3) using assms(1) by (simp add: getCurrentSyncTime_def Let_def)
  have pos: "0 < d"
    using assms(3,4) by simp
  have range: "0 \<le> e \<longrightarrow>
            jsRem e d = floor_mod e d \<and> 0 \<le> jsRem e d \<and> jsRem e d < d"
    using floor_mod_nonneg [OF pos, of e] floor_mod_less [OF pos, of e] pos
    by (auto simp: jsRem_eq_floor_mod)
  have nominal: "getCurrentSyncTime clientNow (m\<lparr>syncData := Some (sd\<lparr>p_songDuration := nominal\<rparr>)\<rparr>)
           = getCurrentSyncTime clientNow m"
    using assms(1) by (simp add: getCurrentSyncTime_def Let_def)
  have local: "0 < measured \<longrightarrow> actualDurationRef (setActualDuration (Some measured) m) = measured"
    by (simp add: setActualDuration_def)
  from est range nominal local show ?thesis by blast
qed

lemma synced_multiplayer_fields:
  "syncData synced_multiplayer = Some example_sync"
  "latencyRef synced_multiplayer = 0"
  "actualDurationRef synced_multiplayer = 21"
  "p_serverStartTime example_sync = 1000"
  by (simp_all add: synced_multiplayer_def initial_multiplayer_def example_sync_def)

lemma jsRem_25_21: "jsRem 25 21 = 4"
  by (simp add: jsRem_def trunc_def)

theorem sync_position_estimate_witness:
  "syncData synced_multiplayer = Some example_sync
   \<and> 0 < actualDurationRef synced_multiplayer
   \<and> getCurrentSyncTime 26000 synced_multiplayer
       = Some \<lparr>songTime = 4, loopCount = 1, elapsedTime = 25, latency = 0\<rparr>
   \<and> jsRem 25 21 = floor_mod 25 21
   \<and> actualDurationRef (setActualDuration (Some 20.95) synced_multiplayer) = 20.95"
proof -
  have e: "(25::real) = (of_int (26000 - p_serverStartTime example_sync)
      + latencyRef synced_multiplayer) / 1000"
    by (simp add: synced_multiplayer_fields)
  have d: "(21::real) = actualDurationRef synced_multiplayer"
    by (simp add: synced_multiplayer_fields)
  have p: "0 < actualDurationRef synced_multiplayer"
    by (simp add: synced_multiplayer_fields)
  have "(0::real) < 20.95" by simp
  with sync_position_estimate [OF synced_multiplayer_fields(1) e d p, where measured = "20.95"]
  show ?thesis
    by (simp add: synced_multiplayer_fields jsRem_25_21)
qed

text \<open>
  Read literally, with the sum divided by the local duration, the formula gives
  position \<open>304 / 21\<close> and loop count 56 for a client 25 seconds after the epoch,
  where the code gives position 4 and loop count 1.
\<close>

theorem sync_position_estimate_counterexample:
  "getCurrentSyncTime 26000 synced_multiplayer
       = Some \<lparr>songTime = 4, loopCount = 1, elapsedTime = 25, latency = 0\<rparr>
   \<and> spec_songTime 26000 (p_serverStartTime example_sync) (latencyRef synced_multiplayer)
        (actualDurationRef synced_multiplayer) = 304 / 21
   \<and> spec_loopCount 26000 (p_serverStartTime example_sync) (latencyRef synced_multiplayer)
        (actualDurationRef synced_multiplayer) = 56"
proof -
  have q: "\<lfloor>(25000::real) / 441\<rfloor> = 56" by simp
  have "getCurrentSyncTime 26000 synced_multiplayer
       = Some \<lparr>songTime = 4, loopCount = 1, elapsedTime = 25, latency = 0\<rparr>"
    by (simp add: getCurrentSyncTime_def synced_multiplayer_fields jsRem_25_21 Let_def)
  moreover have "spec_loopCount 26000 1000 0 21 = 56"
    by (simp add: spec_loopCount_def spec_expected_def q)
  moreover have "spec_songTime 26000 1000 0 21 = 304 / 21"
    by (simp add: spec_songTime_def spec_expected_def floor_mod_def q)
  ultimately show ?thesis
    by (simp add: synced_multiplayer_fields)
qed

section \<open>Drift correction\<close>

















section \<open>Clamping the start offset\<close>

text \<open>
  Claim C10. With a loaded player and a positive duration, every playback start that
  \<^verbatim>\<open>playAt\<close> issues is at the offset \<open>max 0 (min startOffset (duration - 0.01))\<close>,
  which lies in \<open>[0, duration)\<close> whatever offset was requested; the start is issued
  when the audio context is running, and nothing is started otherwise.
\<close>

theorem playAt_clamps_offset:
  assumes "hasPlayer p" and "isLoaded p" and "0 < duration p"
  shows "(\<forall>v. Start (Some v) \<in> set (snd (snd (playAt startOffset serverLoopCount toneStarted toneNow p)))
            \<longrightarrow> v = max 0 (min startOffset (duration p - 0.01)) \<and> 0 \<le> v \<and> v < duration p)
       \<and> Start None \<notin> set (snd (snd (playAt startOffset serverLoopCount toneStarted toneNow p)))
       \<and> (toneStarted \<longrightarrow>
            fst (playAt startOffset serverLoopCount toneStarted toneNow p)
            \<and> Start (Some (max 0 (min startOffset (duration p - 0.01))))
                \<in> set (snd (snd (playAt startOffset serverLoopCount toneStarted toneNow p))))
       \<and> (\<not> toneStarted \<longrightarrow>
            playAt startOffset serverLoopCount toneStarted toneNow p = (False, p, []))"
  using assms by (auto simp: playAt_def Let_def)

theorem playAt_clamps_offset_witness:
  "hasPlayer loaded_player \<and> isLoaded loaded_player \<and> 0 < duration loaded_player
   \<and> snd (snd (playAt 25 3 True 100 loaded_player)) = [Stop, Start (Some 20.99)]
   \<and> snd (snd (playAt (- 2) 3 True 100 loaded_player)) = [Stop, Start (Some 0)]
   \<and> snd (snd (playAt 4 3 True 100 loaded_player)) = [Stop, Start (Some 4)]
   \<and> snd (snd (playAt 4 3 False 100 loaded_player)) = []"
  using playAt_clamps_offset [of loaded_player 25 3 True 100]
    playAt_clamps_offset [of loaded_player 4 3 False 100]
  by (simp add: loaded_player_def playAt_def Let_def)

end
